theory Spec2Isabelle
  imports Complex_Main
begin

section \<open>The AnyRouter session check-in (src/checkin/checkin-session.js)\<close>

text \<open>
  A shallow embedding of the class \<open>AnyRouterSessionSignIn\<close>. Every remote operation
  goes through the browser page (\<open>page.evaluate\<close>) or through the ledger client
  (\<open>addKeys\<close>, \<open>updateKeyInfo\<close>); the model records each of them, in order, in a trace
  of calls, and takes the answers of the remote console from a \<open>world\<close>: a record of
  functions from the trace so far (the call being answered is its last element) to the
  answer. The world is arbitrary, so a theorem about all worlds is a theorem about every
  behaviour of the remote console, stateful ones included.

  Conventions of the model:
  \<^item> an absent (\<open>undefined\<close>) field is \<open>None\<close>; JavaScript truthiness is written out by
    \<open>truthy_bool\<close>, \<open>truthy_num\<close> and \<open>truthy_str\<close>;
  \<^item> quotas and identifiers are JavaScript numbers holding integers, modelled as \<open>int\<close>;
    a quotient by 500000 is an exact rational (\<open>rat\<close>), and \<open>None\<close> stands for \<open>NaN\<close>
    where the source divides an absent field;
  \<^item> strings are byte strings in UTF-8 (the two literals of the source that are not
    ASCII are spelled out as bytes);
  \<^item> response bodies are JSON objects with fields of the documented types; with them
    no statement of \<open>signIn\<close> throws, so its catch-all handler (lines 826--832) has no
    branch in the model;
  \<^item> console logging, the random delay, and opening and closing the browser context
    have no effect on the calls or the result and are left out.
\<close>

subsection \<open>JavaScript truthiness and defaults\<close>

definition truthy_bool :: "bool option \<Rightarrow> bool" where
  "truthy_bool b = (b = Some True)"

definition truthy_num :: "int option \<Rightarrow> bool" where
  "truthy_num n = (case n of None \<Rightarrow> False | Some k \<Rightarrow> k \<noteq> 0)"

definition truthy_str :: "string option \<Rightarrow> bool" where
  "truthy_str s = (case s of None \<Rightarrow> False | Some t \<Rightarrow> t \<noteq> [])"

text \<open>\<open>x || d\<close> on a number and on a string.\<close>

definition or_num :: "int option \<Rightarrow> int \<Rightarrow> int" where
  "or_num n d = (case n of None \<Rightarrow> d | Some k \<Rightarrow> if k = 0 then d else k)"

definition or_str :: "string option \<Rightarrow> string \<Rightarrow> string" where
  "or_str s d = (case s of None \<Rightarrow> d | Some t \<Rightarrow> if t = [] then d else t)"

text \<open>\<open>s.startsWith(p)\<close>.\<close>

definition startsWith :: "string \<Rightarrow> string \<Rightarrow> bool" where
  "startsWith s p = (take (length p) s = p)"

text \<open>The sale-name prefix of the source, the three characters U+51FA U+552E \<open>_\<close>, in UTF-8.\<close>

definition sell_prefix :: string where
  "sell_prefix = [CHR 0xE5, CHR 0x87, CHR 0xBA, CHR 0xE5, CHR 0x94, CHR 0xAE, CHR ''_'']"

text \<open>The generic error message of the source (U+672A U+77E5 U+9519 U+8BEF), in UTF-8.\<close>

definition unknown_error :: string where
  "unknown_error = [CHR 0xE6, CHR 0x9C, CHR 0xAA, CHR 0xE7, CHR 0x9F, CHR 0xA5,
                    CHR 0xE9, CHR 0x94, CHR 0x99, CHR 0xE8, CHR 0xAF, CHR 0xAF]"

text \<open>Decimal rendering of an HTTP status inside a template string.\<close>

definition digit :: "nat \<Rightarrow> char" where
  "digit d = ''0123456789'' ! d"

fun show_nat :: "nat \<Rightarrow> string" where
  "show_nat n =
     (if n < 10 then [digit n]
      else show_nat (n div 10) @ [digit (n mod 10)])"

declare show_nat.simps [simp del]

text \<open>The conversion factor between minor units and normalized currency.\<close>

definition normalized :: "int \<Rightarrow> rat" where
  "normalized q = of_int q / 500000"

subsection \<open>Data\<close>

text \<open>A token as the remote console returns it; \<open>tk_others\<close> holds every further field
  of the remote record, carried along unchanged by the spread \<open>{...matchedToken}\<close>.\<close>

record remote_token =
  tk_id :: "int option"
  tk_key :: "string option"
  tk_name :: "string option"
  tk_unlimited_quota :: "bool option"
  tk_used_quota :: "int option"
  tk_remain_quota :: "int option"
  tk_others :: "(string \<times> string) list"

text \<open>An entry of \<open>accountInfo.tokens\<close>.\<close>

record token_config =
  c_id :: "int option"
  c_key :: "string option"
  c_name :: "string option"
  c_is_deleted :: "bool option"
  c_is_sold :: "bool option"
  c_unlimited_quota :: "bool option"
  c_remain_quota :: "int option"
  c_used_quota :: "int option"
  c_supplement_quota :: "int option"

text \<open>\<open>accountInfo\<close>; \<open>a_tokens\<close> is \<open>None\<close> when the field is absent or not an array.\<close>

record account_info =
  a_username :: "string option"
  a_id :: "string option"
  a_tokens :: "token_config list option"

text \<open>The argument of \<open>createToken\<close> and the request body it builds.\<close>

record create_config =
  cc_unlimited_quota :: "bool option"
  cc_remain_quota :: "int option"
  cc_name :: "string option"

record create_body =
  b_name :: string
  b_expired_time :: int
  b_model_limits_enabled :: bool
  b_model_limits :: string
  b_allow_ips :: string
  b_group :: string
  b_unlimited_quota :: "bool option"
  b_remain_quota :: "int option"

text \<open>The argument of \<open>updateKeyInfo\<close> and a record of \<open>addKeys\<close>.\<close>

record inc_data =
  inc_quota :: rat

record update_data =
  ud_remain_quota :: "rat option"
  ud_used_quota :: rat
  ud_quota_update_date :: int

record key_update =
  ku_key :: "string option"
  ku_incData :: "inc_data option"
  ku_updateData :: update_data

record ledger_record =
  lr_key :: string
  lr_key_type :: string
  lr_is_sold :: bool
  lr_quota :: rat
  lr_source_name :: string
  lr_account_id :: "string option"

text \<open>An element of \<open>pendingSellTokenNames\<close>.\<close>

record pending_sale =
  p_name :: string
  p_remain_quota :: "int option"

text \<open>An element of \<open>userInfo.tokens\<close>, and \<open>userInfo\<close> itself.\<close>

record listed_token =
  l_id :: "int option"
  l_key :: "string option"
  l_name :: "string option"
  l_unlimited_quota :: "bool option"
  l_used_quota :: "int option"
  l_remain_quota :: "int option"
  l_supplement_quota :: int

record user_info =
  ui_username :: "string option"
  ui_email :: "string option"
  ui_quota :: int
  ui_usedQuota :: "int option"
  ui_affCode :: "string option"
  ui_affQuota :: int
  ui_status :: "int option"
  ui_tokens :: "listed_token list option"

subsection \<open>Responses of the remote console\<close>

text \<open>What the function run inside the page returns: \<open>{error}\<close> when the fetch or
  the JSON parse threw, \<open>{status, data}\<close> otherwise.\<close>

datatype 'a fetch_result = FetchError string | FetchOk nat 'a

record sign_in_body =
  si_ret :: "int option"
  si_code :: "int option"
  si_success :: "bool option"
  si_msg :: "string option"
  si_message :: "string option"

record user_data =
  d_username :: "string option"
  d_email :: "string option"
  d_quota :: int
  d_used_quota :: "int option"
  d_aff_code :: "string option"
  d_aff_quota :: "int option"
  d_status :: "int option"

record user_self_body =
  us_success :: "bool option"
  us_data :: "user_data option"

record token_list_body =
  tl_success :: "bool option"
  tl_data :: "remote_token list option"

record plain_body =
  pb_success :: "bool option"
  pb_message :: "string option"

record update_body =
  ub_success :: "bool option"
  ub_message :: "string option"
  ub_data :: "remote_token option"

subsection \<open>Calls, traces and the world\<close>

datatype call =
    SignIn
  | UserSelf
  | AffTransfer int
  | DeleteToken int
  | CreateToken create_body
  | ListTokens
  | UpdateToken remote_token
  | UpdateKeyInfo key_update
  | AddKeys "ledger_record list"

type_synonym trace = "call list"

text \<open>
  The answers of the remote console, each a function of the trace up to and including
  the call being answered, and the clock (\<open>Date.now()\<close>), a function of the trace of
  the calls made before it is read.
\<close>

record world =
  w_sign_in :: "trace \<Rightarrow> sign_in_body fetch_result"
  w_user_self :: "trace \<Rightarrow> user_self_body fetch_result"
  w_aff_transfer :: "trace \<Rightarrow> plain_body fetch_result"
  w_list_tokens :: "trace \<Rightarrow> token_list_body fetch_result"
  w_delete_token :: "trace \<Rightarrow> plain_body fetch_result"
  w_create_token :: "trace \<Rightarrow> plain_body fetch_result"
  w_update_token :: "trace \<Rightarrow> update_body fetch_result"
  w_now :: "trace \<Rightarrow> int"

subsection \<open>The ledger client\<close>

text \<open>Modelled from the spec: the ledger client (\<open>../api/index.js\<close>, with \<open>addKeys\<close> and
  \<open>updateKeyInfo\<close>) is not among the sources. By section 4.2 of the specification each
  of its two operations returns an object \<open>{success, error?}\<close>; the source only logs
  which of the two it got. So a ledger call is recorded in the trace and the run goes
  on, and the world has no field for its result.\<close>

definition ledgerCall :: "call \<Rightarrow> trace \<Rightarrow> trace" where
  "ledgerCall c tr = tr @ [c]"

declare ledgerCall_def [simp]

subsection \<open>The token operations (lines 113--343)\<close>

text \<open>\<open>getTokens\<close>: every outcome but HTTP 200 with \<open>success\<close> is the empty list.\<close>

definition getTokens :: "world \<Rightarrow> trace \<Rightarrow> remote_token list \<times> trace" where
  "getTokens w tr =
     (let tr' = tr @ [ListTokens] in
      (case w_list_tokens w tr' of
         FetchError e \<Rightarrow> []
       | FetchOk st body \<Rightarrow>
           if st = 200 \<and> truthy_bool (tl_success body)
           then (case tl_data body of None \<Rightarrow> [] | Some ts \<Rightarrow> ts)
           else [],
       tr'))"

definition deleteToken :: "world \<Rightarrow> int \<Rightarrow> trace \<Rightarrow> bool \<times> trace" where
  "deleteToken w tokenId tr =
     (let tr' = tr @ [DeleteToken tokenId] in
      (case w_delete_token w tr' of
         FetchError e \<Rightarrow> False
       | FetchOk st body \<Rightarrow> st = 200 \<and> truthy_bool (pb_success body),
       tr'))"

text \<open>The request body of \<open>createToken\<close> (lines 226--241).\<close>

definition requestBody :: "create_config \<Rightarrow> create_body" where
  "requestBody tokenConfig =
     (let body = \<lparr> b_name = or_str (cc_name tokenConfig) ''dw'',
                    b_expired_time = - 1,
                    b_model_limits_enabled = False,
                    b_model_limits = '''',
                    b_allow_ips = '''',
                    b_group = ''default'',
                    b_unlimited_quota = None,
                    b_remain_quota = None \<rparr>
      in if truthy_bool (cc_unlimited_quota tokenConfig)
         then body \<lparr> b_unlimited_quota := Some True \<rparr>
         else body \<lparr> b_remain_quota := Some (or_num (cc_remain_quota tokenConfig) 500000) \<rparr>)"

definition createToken :: "world \<Rightarrow> create_config \<Rightarrow> trace \<Rightarrow> bool \<times> trace" where
  "createToken w tokenConfig tr =
     (let tr' = tr @ [CreateToken (requestBody tokenConfig)] in
      (case w_create_token w tr' of
         FetchError e \<Rightarrow> False
       | FetchOk st body \<Rightarrow> st = 200 \<and> truthy_bool (pb_success body),
       tr'))"

text \<open>\<open>updateToken\<close> returns \<open>result.data.data\<close> on success and \<open>null\<close> otherwise; the
  caller only tests the result for truthiness, so an absent \<open>data\<close> is \<open>None\<close> too.\<close>

definition updateToken :: "world \<Rightarrow> remote_token \<Rightarrow> trace \<Rightarrow> remote_token option \<times> trace" where
  "updateToken w tokenData tr =
     (let tr' = tr @ [UpdateToken tokenData] in
      (case w_update_token w tr' of
         FetchError e \<Rightarrow> None
       | FetchOk st body \<Rightarrow>
           if st = 200 \<and> truthy_bool (ub_success body) then ub_data body else None,
       tr'))"

subsection \<open>The sign-in run (lines 406--833)\<close>

text \<open>The user snapshot (lines 503--533): \<open>null\<close> unless the body has a truthy
  \<open>success\<close> and a \<open>data\<close> object; the HTTP status is not looked at. The snapshot has
  no \<open>tokens\<close> field yet.\<close>

definition snapshot :: "user_data \<Rightarrow> user_info" where
  "snapshot d =
     \<lparr> ui_username = d_username d,
       ui_email = d_email d,
       ui_quota = d_quota d,
       ui_usedQuota = d_used_quota d,
       ui_affCode = d_aff_code d,
       ui_affQuota = or_num (d_aff_quota d) 0,
       ui_status = d_status d,
       ui_tokens = None \<rparr>"

definition fetchUserInfo :: "world \<Rightarrow> trace \<Rightarrow> user_info option \<times> trace" where
  "fetchUserInfo w tr =
     (let tr' = tr @ [UserSelf] in
      (case w_user_self w tr' of
         FetchError e \<Rightarrow> None
       | FetchOk st body \<Rightarrow>
           if truthy_bool (us_success body) then map_option snapshot (us_data body) else None,
       tr'))"

text \<open>The reward transfer (lines 550--594). The snapshot is credited before the answer
  to the transfer is looked at, and the answer only chooses between two log lines, so
  the branches on it return the same.\<close>

definition transferReward :: "world \<Rightarrow> user_info \<Rightarrow> trace \<Rightarrow> user_info \<times> trace" where
  "transferReward w userInfo tr =
     (if ui_affQuota userInfo \<noteq> 0 \<and> ui_affQuota userInfo > 0
      then (let tr' = tr @ [AffTransfer (ui_affQuota userInfo)];
                credited = userInfo \<lparr> ui_quota := ui_quota userInfo + ui_affQuota userInfo,
                                      ui_affQuota := 0 \<rparr>
            in (case w_aff_transfer w tr' of
                  FetchError e \<Rightarrow> (credited, tr')
                | FetchOk st body \<Rightarrow>
                    if truthy_bool (pb_success body) then (credited, tr') else (credited, tr')))
      else (userInfo, tr))"

text \<open>The guard \<open>accountInfo && accountInfo.tokens && Array.isArray(accountInfo.tokens)\<close>.\<close>

definition configured :: "account_info option \<Rightarrow> token_config list option" where
  "configured accountInfo = (case accountInfo of None \<Rightarrow> None | Some a \<Rightarrow> a_tokens a)"

text \<open>\<open>name && name.startsWith(prefix)\<close>.\<close>

definition isSellName :: "string option \<Rightarrow> bool" where
  "isSellName name = (case name of None \<Rightarrow> False | Some n \<Rightarrow> n \<noteq> [] \<and> startsWith n sell_prefix)"

text \<open>Deletion and creation (lines 596--631), one entry of the configuration at a time.
  The state of the loop is \<open>pendingSellTokenNames\<close> and the trace.\<close>

definition creationConfig :: "token_config \<Rightarrow> create_config" where
  "creationConfig tokenConfig =
     \<lparr> cc_unlimited_quota = Some (truthy_bool (c_unlimited_quota tokenConfig)),
       cc_remain_quota = c_remain_quota tokenConfig,
       cc_name = c_name tokenConfig \<rparr>"

definition createEntry ::
  "world \<Rightarrow> token_config \<Rightarrow> pending_sale list \<times> trace \<Rightarrow> pending_sale list \<times> trace" where
  "createEntry w tokenConfig st =
     (case st of (pending, tr) \<Rightarrow>
        (case createToken w (creationConfig tokenConfig) tr of (createSuccess, tr') \<Rightarrow>
           (case c_name tokenConfig of
              Some n \<Rightarrow>
                if createSuccess \<and> isSellName (Some n)
                then (pending @ [\<lparr> p_name = n, p_remain_quota = c_remain_quota tokenConfig \<rparr>], tr')
                else (pending, tr')
            | None \<Rightarrow> (pending, tr'))))"

definition manageEntry ::
  "world \<Rightarrow> token_config \<Rightarrow> pending_sale list \<times> trace \<Rightarrow> pending_sale list \<times> trace" where
  "manageEntry w tokenConfig st =
     (case c_id tokenConfig of
        Some i \<Rightarrow>
          if i \<noteq> 0 \<and> truthy_bool (c_is_deleted tokenConfig)
          then (fst st, snd (deleteToken w i (snd st)))
          else if i = 0 then createEntry w tokenConfig st
          else st
      | None \<Rightarrow> createEntry w tokenConfig st)"

definition manageTokens ::
  "world \<Rightarrow> account_info option \<Rightarrow> trace \<Rightarrow> pending_sale list \<times> trace" where
  "manageTokens w accountInfo tr =
     (case configured accountInfo of
        None \<Rightarrow> ([], tr)
      | Some cfgs \<Rightarrow> fold (manageEntry w) cfgs ([], tr))"

text \<open>Assignment to a field of the object that \<open>tokens.find\<close> returned: the first
  element of the array that satisfies the predicate changes.\<close>

fun update_first :: "('a \<Rightarrow> bool) \<Rightarrow> ('a \<Rightarrow> 'a) \<Rightarrow> 'a list \<Rightarrow> 'a list" where
  "update_first P f [] = []"
| "update_first P f (x # xs) = (if P x then f x # xs else x # update_first P f xs)"

text \<open>The supplement pass (lines 646--708). The loop runs over the entries that
  \<open>needsSupplement\<close> keeps, so an entry without a supplement never reaches the loop
  body; the model leaves the state unchanged there.\<close>

definition needsSupplement :: "token_config \<Rightarrow> bool" where
  "needsSupplement t =
     (case c_supplement_quota t of None \<Rightarrow> False | Some s \<Rightarrow> s \<noteq> 0 \<and> s > 0)"

definition supplementMirror :: "world \<Rightarrow> token_config \<Rightarrow> int \<Rightarrow> remote_token \<Rightarrow> trace \<Rightarrow> key_update" where
  "supplementMirror w configToken s updateResult tr =
     \<lparr> ku_key = c_key configToken,
       ku_incData = Some \<lparr> inc_quota = normalized s \<rparr>,
       ku_updateData =
         \<lparr> ud_remain_quota = map_option normalized (tk_remain_quota updateResult),
           ud_used_quota = normalized (or_num (tk_used_quota updateResult) 0),
           ud_quota_update_date = w_now w tr \<rparr> \<rparr>"

definition supplementEntry ::
  "world \<Rightarrow> token_config \<Rightarrow> remote_token list \<times> trace \<Rightarrow> remote_token list \<times> trace" where
  "supplementEntry w configToken st =
     (case st of (tokens, tr) \<Rightarrow>
        (case (find (\<lambda>t. tk_id t = c_id configToken) tokens, c_supplement_quota configToken) of
           (Some matchedToken, Some s) \<Rightarrow>
             (let newRemainQuota = or_num (tk_remain_quota matchedToken) 0 + s;
                  updatedTokenData = matchedToken \<lparr> tk_remain_quota := Some newRemainQuota \<rparr>
              in (case updateToken w updatedTokenData tr of
                    (None, tr1) \<Rightarrow> (tokens, tr1)
                  | (Some updateResult, tr1) \<Rightarrow>
                      (update_first (\<lambda>t. tk_id t = c_id configToken)
                         (\<lambda>t. t \<lparr> tk_remain_quota := tk_remain_quota updateResult \<rparr>) tokens,
                       if truthy_str (c_key configToken)
                       then ledgerCall (UpdateKeyInfo (supplementMirror w configToken s updateResult tr1)) tr1
                       else tr1)))
         | _ \<Rightarrow> (tokens, tr)))"

definition supplementPass ::
  "world \<Rightarrow> account_info option \<Rightarrow> remote_token list \<Rightarrow> trace \<Rightarrow> remote_token list \<times> trace" where
  "supplementPass w accountInfo tokens tr =
     (case configured accountInfo of
        None \<Rightarrow> (tokens, tr)
      | Some cfgs \<Rightarrow> fold (supplementEntry w) (filter needsSupplement cfgs) (tokens, tr))"

text \<open>The branch on the fetched list (lines 633--709): bootstrap or supplement.\<close>

definition bootstrapConfig :: create_config where
  "bootstrapConfig = \<lparr> cc_unlimited_quota = Some True, cc_remain_quota = None, cc_name = None \<rparr>"

definition bootstrapOrSupplement ::
  "world \<Rightarrow> account_info option \<Rightarrow> remote_token list \<Rightarrow> trace \<Rightarrow> remote_token list \<times> trace" where
  "bootstrapOrSupplement w accountInfo tokens tr =
     (if length tokens = 0
      then (case createToken w bootstrapConfig tr of
              (created, tr') \<Rightarrow> if created then getTokens w tr' else (tokens, tr'))
      else supplementPass w accountInfo tokens tr)"

text \<open>The upload of the sale tokens created in this run (lines 711--742). Pending
  sales are only recorded under the guard on \<open>accountInfo\<close>, so the upload never runs
  without an account; the model returns the trace unchanged there.\<close>

definition uploadRecord :: "account_info \<Rightarrow> pending_sale \<Rightarrow> remote_token \<Rightarrow> ledger_record list" where
  "uploadRecord acc pending matchedToken =
     (case tk_key matchedToken of
        None \<Rightarrow> []
      | Some k \<Rightarrow>
          if k = [] then []
          else [\<lparr> lr_key = k,
                  lr_key_type = ''anyrouter'',
                  lr_is_sold = False,
                  lr_quota = (case p_remain_quota pending of
                                None \<Rightarrow> 0
                              | Some q \<Rightarrow> if q = 0 then 0 else normalized q),
                  lr_source_name = or_str (a_username acc) [] @ ''&'' @ p_name pending,
                  lr_account_id = a_id acc \<rparr>])"

fun keysToUpload :: "account_info \<Rightarrow> pending_sale list \<Rightarrow> remote_token list \<Rightarrow> ledger_record list" where
  "keysToUpload acc [] tokens = []"
| "keysToUpload acc (pending # rest) tokens =
     (case find (\<lambda>t. tk_name t = Some (p_name pending)) tokens of
        None \<Rightarrow> []
      | Some matchedToken \<Rightarrow> uploadRecord acc pending matchedToken)
     @ keysToUpload acc rest tokens"

definition saleUpload ::
  "account_info option \<Rightarrow> pending_sale list \<Rightarrow> remote_token list \<Rightarrow> trace \<Rightarrow> trace" where
  "saleUpload accountInfo pending tokens tr =
     (if length pending > 0
      then (case accountInfo of
              None \<Rightarrow> tr
            | Some acc \<Rightarrow>
                (let keys = keysToUpload acc pending tokens
                 in if length keys > 0 then ledgerCall (AddKeys keys) tr else tr))
      else tr)"

text \<open>The drift synchronisation (lines 745--794).\<close>

definition isSellConfig :: "token_config \<Rightarrow> bool" where
  "isSellConfig t = ((isSellName (c_name t) \<or> c_is_sold t = Some True) \<and> truthy_str (c_key t))"

definition driftUpdate :: "world \<Rightarrow> token_config \<Rightarrow> remote_token \<Rightarrow> trace \<Rightarrow> key_update" where
  "driftUpdate w configToken currentToken tr =
     \<lparr> ku_key = c_key configToken,
       ku_incData = None,
       ku_updateData =
         \<lparr> ud_remain_quota = Some (normalized (or_num (tk_remain_quota currentToken) 0)),
           ud_used_quota = normalized (or_num (tk_used_quota currentToken) 0),
           ud_quota_update_date = w_now w tr \<rparr> \<rparr>"

definition driftEntry :: "world \<Rightarrow> remote_token list \<Rightarrow> token_config \<Rightarrow> trace \<Rightarrow> trace" where
  "driftEntry w tokens configToken tr =
     (case find (\<lambda>t. tk_key t = c_key configToken \<or> tk_id t = c_id configToken) tokens of
        None \<Rightarrow> tr
      | Some currentToken \<Rightarrow>
          (let oldUsedQuota = or_num (c_used_quota configToken) 0;
               newUsedQuota = or_num (tk_used_quota currentToken) 0;
               isSold = (c_is_sold configToken = Some True)
           in if newUsedQuota \<noteq> oldUsedQuota \<or> isSold
              then ledgerCall (UpdateKeyInfo (driftUpdate w configToken currentToken tr)) tr
              else tr))"

definition driftSync :: "world \<Rightarrow> account_info option \<Rightarrow> remote_token list \<Rightarrow> trace \<Rightarrow> trace" where
  "driftSync w accountInfo tokens tr =
     (case configured accountInfo of
        None \<Rightarrow> tr
      | Some cfgs \<Rightarrow> fold (driftEntry w tokens) (filter isSellConfig cfgs) tr)"

text \<open>The token list attached to the snapshot (lines 796--808).\<close>

definition listedToken :: "remote_token \<Rightarrow> listed_token" where
  "listedToken token =
     \<lparr> l_id = tk_id token,
       l_key = tk_key token,
       l_name = tk_name token,
       l_unlimited_quota = tk_unlimited_quota token,
       l_used_quota = tk_used_quota token,
       l_remain_quota = tk_remain_quota token,
       l_supplement_quota = 0 \<rparr>"

definition attachTokens :: "user_info \<Rightarrow> remote_token list \<Rightarrow> user_info" where
  "attachTokens userInfo tokens =
     (if length tokens > 0 then userInfo \<lparr> ui_tokens := Some (map listedToken tokens) \<rparr>
      else userInfo)"

text \<open>Lines 596--808 in their order: everything after the reward transfer.\<close>

definition reconcile ::
  "world \<Rightarrow> account_info option \<Rightarrow> user_info \<Rightarrow> trace \<Rightarrow> user_info \<times> trace" where
  "reconcile w accountInfo userInfo tr =
     (case manageTokens w accountInfo tr of (pendingSellTokenNames, tr1) \<Rightarrow>
      (case getTokens w tr1 of (fetched, tr2) \<Rightarrow>
       (case bootstrapOrSupplement w accountInfo fetched tr2 of (tokens, tr3) \<Rightarrow>
          (attachTokens userInfo tokens,
           driftSync w accountInfo tokens
             (saleUpload accountInfo pendingSellTokenNames tokens tr3)))))"

text \<open>The result of \<open>signIn\<close>: \<open>{success: true, userInfo}\<close> (with \<open>userInfo\<close> possibly
  \<open>null\<close>) or \<open>{success: false, error}\<close>.\<close>

datatype sign_result = Success "user_info option" | Failure string

text \<open>\<open>signIn\<close>. A transport error with an empty message is falsy, so the run falls
  through to the status test, where the absent status is rendered \<open>undefined\<close>.\<close>

definition signIn :: "world \<Rightarrow> account_info option \<Rightarrow> sign_result \<times> trace" where
  "signIn w accountInfo =
     (let tr = [SignIn] in
      (case w_sign_in w tr of
         FetchError e \<Rightarrow>
           if e \<noteq> [] then (Failure e, tr) else (Failure ''HTTP undefined'', tr)
       | FetchOk st data \<Rightarrow>
           if st = 200 then
             if si_ret data = Some 1 \<or> si_code data = Some 0 \<or> truthy_bool (si_success data)
             then (case fetchUserInfo w tr of
                     (None, tr1) \<Rightarrow> (Success None, tr1)
                   | (Some userInfo, tr1) \<Rightarrow>
                       if ui_status userInfo = Some 2 then (Success (Some userInfo), tr1)
                       else (case transferReward w userInfo tr1 of (credited, tr2) \<Rightarrow>
                               (case reconcile w accountInfo credited tr2 of (final, tr3) \<Rightarrow>
                                  (Success (Some final), tr3))))
             else (Failure (or_str (si_msg data) (or_str (si_message data) unknown_error)), tr)
           else (Failure (''HTTP '' @ show_nat st), tr)))"

subsection \<open>Kinds of calls\<close>

text \<open>The operation a call belongs to. An \<open>updateKeyInfo\<close> call with \<open>incData\<close> is the
  mirror of a supplement; one without is a drift synchronisation.\<close>

datatype call_kind =
  KSignIn | KUserSelf | KTransfer | KDelete | KCreate | KList | KUpdate | KMirror | KDrift | KAddKeys

fun kind :: "call \<Rightarrow> call_kind" where
  "kind SignIn = KSignIn"
| "kind UserSelf = KUserSelf"
| "kind (AffTransfer q) = KTransfer"
| "kind (DeleteToken i) = KDelete"
| "kind (CreateToken b) = KCreate"
| "kind ListTokens = KList"
| "kind (UpdateToken t) = KUpdate"
| "kind (UpdateKeyInfo u) = (case ku_incData u of None \<Rightarrow> KDrift | Some d \<Rightarrow> KMirror)"
| "kind (AddKeys ks) = KAddKeys"

text \<open>The calls of one kind in a trace, in order.\<close>

definition calls :: "call_kind \<Rightarrow> trace \<Rightarrow> trace" where
  "calls k tr = filter (\<lambda>c. kind c = k) tr"

text \<open>The key an \<open>updateKeyInfo\<close> call is about, and the identifier of the record an
  update call sends.\<close>

fun ledger_key :: "call \<Rightarrow> string option" where
  "ledger_key (UpdateKeyInfo u) = ku_key u"
| "ledger_key c = None"


subsection \<open>Drift, in the words of the specification\<close>

text \<open>An entry needs a synchronisation when a current remote token matches it (by key
  or by identifier) and either the used quota recorded in the entry differs from the
  one of that token (an absent one counting as 0), or the entry is flagged as sold.\<close>

definition needs_sync :: "remote_token list \<Rightarrow> token_config \<Rightarrow> bool" where
  "needs_sync tokens c =
     (case find (\<lambda>t. tk_key t = c_key c \<or> tk_id t = c_id c) tokens of
        None \<Rightarrow> False
      | Some current \<Rightarrow>
          or_num (c_used_quota c) 0 \<noteq> or_num (tk_used_quota current) 0 \<or> c_is_sold c = Some True)"

subsection \<open>Failed listings\<close>

text \<open>The outcomes of the list-tokens operation that are not an HTTP 200 with the
  success marker: a transport or parse failure, another status, or a body without a
  true \<open>success\<close>.\<close>

fun list_failed :: "token_list_body fetch_result \<Rightarrow> bool" where
  "list_failed (FetchError e) = True"
| "list_failed (FetchOk st body) = (st \<noteq> 200 \<or> \<not> truthy_bool (tl_success body))"

subsection \<open>Example worlds\<close>

text \<open>A console that answers every call the same way whatever came before: the sign-in
  answer, the user record and the token listing are parameters, deletion and creation
  succeed or fail together with transfers and updates, an update returns the record it was sent, and
  the clock counts the calls made so far.\<close>

definition demo_user :: "int option \<Rightarrow> int option \<Rightarrow> user_data" where
  "demo_user aff status =
     \<lparr> d_username = Some ''alice'', d_email = Some ''alice@example.org'', d_quota = 1000000,
       d_used_quota = Some 250000, d_aff_code = Some ''c15A'', d_aff_quota = aff, d_status = status \<rparr>"

definition accepted :: "sign_in_body fetch_result" where
  "accepted = FetchOk 200 \<lparr> si_ret = None, si_code = None, si_success = Some True,
                            si_msg = None, si_message = None \<rparr>"

definition listing :: "remote_token list \<Rightarrow> token_list_body fetch_result" where
  "listing ts = FetchOk 200 \<lparr> tl_success = Some True, tl_data = Some ts \<rparr>"

definition demo_world ::
  "sign_in_body fetch_result \<Rightarrow> user_data \<Rightarrow> token_list_body fetch_result \<Rightarrow> bool \<Rightarrow> world" where
  "demo_world si d lst ok =
     \<lparr> w_sign_in = (\<lambda>tr. si),
       w_user_self = (\<lambda>tr. FetchOk 200 \<lparr> us_success = Some True, us_data = Some d \<rparr>),
       w_aff_transfer = (\<lambda>tr. FetchOk 200 \<lparr> pb_success = Some ok, pb_message = None \<rparr>),
       w_list_tokens = (\<lambda>tr. lst),
       w_delete_token = (\<lambda>tr. FetchOk 200 \<lparr> pb_success = Some ok, pb_message = None \<rparr>),
       w_create_token = (\<lambda>tr. FetchOk 200 \<lparr> pb_success = Some ok, pb_message = None \<rparr>),
       w_update_token =
         (\<lambda>tr. case last tr of
                  UpdateToken t \<Rightarrow> FetchOk 200 \<lparr> ub_success = Some ok, ub_message = None, ub_data = Some t \<rparr>
                | _ \<Rightarrow> FetchError ''not an update''),
       w_now = (\<lambda>tr. int (length tr)) \<rparr>"

text \<open>An account with a given configuration, a configuration entry with no field set,
  and a remote token with identifier 7 and 100000 minor units left.\<close>

definition demo_account :: "token_config list \<Rightarrow> account_info" where
  "demo_account cfgs = \<lparr> a_username = Some ''alice'', a_id = Some ''a1'', a_tokens = Some cfgs \<rparr>"

definition blank_config :: token_config where
  "blank_config =
     \<lparr> c_id = None, c_key = None, c_name = None, c_is_deleted = None, c_is_sold = None,
       c_unlimited_quota = None, c_remain_quota = None, c_used_quota = None,
       c_supplement_quota = None \<rparr>"

definition token7 :: remote_token where
  "token7 =
     \<lparr> tk_id = Some 7, tk_key = Some ''sk-7'', tk_name = Some ''main'',
       tk_unlimited_quota = Some False, tk_used_quota = Some 20000,
       tk_remain_quota = Some 100000, tk_others = [(''group'', ''default'')] \<rparr>"

text \<open>A console on which the account has no token until the bootstrap creation, and
  token 7 after it.\<close>

definition fresh_world :: world where
  "fresh_world =
     (demo_world accepted (demo_user None (Some 1)) (listing []) True)
       \<lparr> w_list_tokens :=
           (\<lambda>tr. if CreateToken (requestBody bootstrapConfig) \<in> set tr
                 then listing [token7] else listing []) \<rparr>"

text \<open>A name with the sale prefix, and a remote token of a given name that carries key
  material.\<close>

definition sale_name :: string where
  "sale_name = sell_prefix @ ''a''"

definition sale_token :: "string \<Rightarrow> remote_token" where
  "sale_token n =
     \<lparr> tk_id = Some 12, tk_key = Some ''sk-new'', tk_name = Some n,
       tk_unlimited_quota = Some False, tk_used_quota = Some 0,
       tk_remain_quota = Some 250000, tk_others = [] \<rparr>"

text \<open>A desired entry for token 7, named as a sale token, that recorded a given used
  quota.\<close>

definition sale_entry :: "int \<Rightarrow> token_config" where
  "sale_entry used =
     blank_config \<lparr> c_id := Some 7, c_key := Some ''sk-7'', c_name := Some sale_name,
                    c_used_quota := Some used \<rparr>"


section \<open>Properties\<close>

subsection \<open>The calls each step adds to the trace\<close>

text \<open>Every step appends to the trace it is given; the lemmas below say which kinds of
  calls each step can append.\<close>

lemma getTokens_trace: "snd (getTokens w tr) = tr @ [ListTokens]"
  by (simp add: getTokens_def Let_def)

lemma deleteToken_trace: "snd (deleteToken w i tr) = tr @ [DeleteToken i]"
  by (simp add: deleteToken_def Let_def)

lemma createToken_trace: "snd (createToken w c tr) = tr @ [CreateToken (requestBody c)]"
  by (simp add: createToken_def Let_def)

lemma updateToken_trace: "snd (updateToken w t tr) = tr @ [UpdateToken t]"
  by (simp add: updateToken_def Let_def)

lemma transferReward_trace:
  "snd (transferReward w ui tr) = tr @ (if 0 < ui_affQuota ui then [AffTransfer (ui_affQuota ui)] else [])"
  by (simp add: transferReward_def Let_def split: fetch_result.splits)

lemma transferReward_info:
  "fst (transferReward w ui tr) =
     (if 0 < ui_affQuota ui then ui \<lparr> ui_quota := ui_quota ui + ui_affQuota ui, ui_affQuota := 0 \<rparr> else ui)"
  by (simp add: transferReward_def Let_def split: fetch_result.splits)

lemma createEntry_adds:
  "\<exists>ext. snd (createEntry w c st) = snd st @ ext \<and> kind ` set ext \<subseteq> {KCreate}"
proof -
  obtain ok tr' where ct: "createToken w (creationConfig c) (snd st) = (ok, tr')"
    by (cases "createToken w (creationConfig c) (snd st)")
  then have "tr' = snd st @ [CreateToken (requestBody (creationConfig c))]"
    using createToken_trace [of w "creationConfig c" "snd st"] by simp
  moreover have "snd (createEntry w c st) = tr'"
    using ct by (cases st) (simp add: createEntry_def split: option.splits)
  ultimately show ?thesis by simp
qed

lemma manageEntry_adds:
  "\<exists>ext. snd (manageEntry w c st) = snd st @ ext \<and> kind ` set ext \<subseteq> {KDelete, KCreate}"
proof -
  from createEntry_adds [of w c st]
  have "\<exists>ext. snd (createEntry w c st) = snd st @ ext \<and> kind ` set ext \<subseteq> {KDelete, KCreate}"
    by blast
  then show ?thesis
    by (auto simp add: manageEntry_def deleteToken_trace split: option.splits)
qed

lemma fold_adds:
  assumes step: "\<And>x s. \<exists>ext. tr_of (f x s) = tr_of s @ ext \<and> kind ` set ext \<subseteq> K"
  shows "\<exists>ext. tr_of (fold f xs s) = tr_of s @ ext \<and> kind ` set ext \<subseteq> K"
proof (induction xs arbitrary: s)
  case Nil
  show ?case by simp
next
  case (Cons x xs)
  obtain e1 where e1: "tr_of (f x s) = tr_of s @ e1" "kind ` set e1 \<subseteq> K"
    using step by blast
  obtain e2 where e2: "tr_of (fold f xs (f x s)) = tr_of (f x s) @ e2" "kind ` set e2 \<subseteq> K"
    using Cons.IH by blast
  have "tr_of (fold f (x # xs) s) = tr_of s @ (e1 @ e2)"
    using e1 e2 by simp
  moreover have "kind ` set (e1 @ e2) \<subseteq> K"
    using e1 e2 by auto
  ultimately show ?case by blast
qed

lemma manageTokens_adds:
  "\<exists>ext. snd (manageTokens w acc tr) = tr @ ext \<and> kind ` set ext \<subseteq> {KDelete, KCreate}"
proof (cases "configured acc")
  case None
  then show ?thesis by (simp add: manageTokens_def)
next
  case (Some cfgs)
  have "\<exists>ext. snd (fold (manageEntry w) cfgs ([], tr)) = snd ([] :: pending_sale list, tr) @ ext
          \<and> kind ` set ext \<subseteq> {KDelete, KCreate}"
    by (rule fold_adds [where tr_of = snd and f = "manageEntry w"]) (rule manageEntry_adds)
  with Some show ?thesis by (simp add: manageTokens_def)
qed

lemma supplementEntry_adds:
  "\<exists>ext. snd (supplementEntry w c st) = snd st @ ext \<and> kind ` set ext \<subseteq> {KUpdate, KMirror}"
  by (cases st)
     (auto simp add: supplementEntry_def Let_def updateToken_def supplementMirror_def
           split: option.splits fetch_result.splits)

lemma supplementPass_adds:
  "\<exists>ext. snd (supplementPass w acc tokens tr) = tr @ ext \<and> kind ` set ext \<subseteq> {KUpdate, KMirror}"
proof (cases "configured acc")
  case None
  then show ?thesis by (simp add: supplementPass_def)
next
  case (Some cfgs)
  have "\<exists>ext. snd (fold (supplementEntry w) (filter needsSupplement cfgs) (tokens, tr))
            = snd (tokens, tr) @ ext \<and> kind ` set ext \<subseteq> {KUpdate, KMirror}"
    by (rule fold_adds [where tr_of = snd and f = "supplementEntry w"]) (rule supplementEntry_adds)
  with Some show ?thesis by (simp add: supplementPass_def)
qed

lemma driftEntry_adds:
  "\<exists>ext. driftEntry w tokens c tr = tr @ ext \<and> kind ` set ext \<subseteq> {KDrift}"
  by (auto simp add: driftEntry_def Let_def driftUpdate_def split: option.splits)

lemma driftSync_adds:
  "\<exists>ext. driftSync w acc tokens tr = tr @ ext \<and> kind ` set ext \<subseteq> {KDrift}"
proof (cases "configured acc")
  case None
  then show ?thesis by (simp add: driftSync_def)
next
  case (Some cfgs)
  have "\<exists>ext. id (fold (driftEntry w tokens) (filter isSellConfig cfgs) tr)
            = id tr @ ext \<and> kind ` set ext \<subseteq> {KDrift}"
    by (rule fold_adds [where tr_of = id and f = "driftEntry w tokens"]) (simp add: driftEntry_adds)
  with Some show ?thesis by (simp add: driftSync_def)
qed

lemma saleUpload_adds:
  "\<exists>ext. saleUpload acc pending tokens tr = tr @ ext \<and> kind ` set ext \<subseteq> {KAddKeys}"
  by (auto simp add: saleUpload_def Let_def split: option.splits)

lemma bootstrap_adds:
  "\<exists>ext. snd (bootstrapOrSupplement w acc [] tr) = tr @ ext \<and> kind ` set ext \<subseteq> {KCreate, KList}"
  by (auto simp add: bootstrapOrSupplement_def createToken_def getTokens_def Let_def
           split: prod.splits)

lemma bootstrapOrSupplement_adds:
  "\<exists>ext. snd (bootstrapOrSupplement w acc tokens tr) = tr @ ext
         \<and> kind ` set ext \<subseteq> {KCreate, KList, KUpdate, KMirror}"
proof (cases "tokens = []")
  case True
  with bootstrap_adds [of w acc tr] show ?thesis by blast
next
  case False
  with supplementPass_adds [of w acc tokens tr] show ?thesis
    by (auto simp add: bootstrapOrSupplement_def)
qed

lemma reconcile_adds:
  "\<exists>ext. snd (reconcile w acc ui tr) = tr @ ext
         \<and> kind ` set ext \<subseteq> {KDelete, KCreate, KList, KUpdate, KMirror, KAddKeys, KDrift}"
proof -
  obtain pending tr1 where m: "manageTokens w acc tr = (pending, tr1)"
    by (cases "manageTokens w acc tr")
  obtain fetched tr2 where g: "getTokens w tr1 = (fetched, tr2)"
    by (cases "getTokens w tr1")
  obtain tokens tr3 where b: "bootstrapOrSupplement w acc fetched tr2 = (tokens, tr3)"
    by (cases "bootstrapOrSupplement w acc fetched tr2")
  obtain e1 where e1: "tr1 = tr @ e1" "kind ` set e1 \<subseteq> {KDelete, KCreate}"
    using manageTokens_adds [of w acc tr] m by auto
  have e2: "tr2 = tr1 @ [ListTokens]"
    using getTokens_trace [of w tr1] g by simp
  obtain e3 where e3: "tr3 = tr2 @ e3" "kind ` set e3 \<subseteq> {KCreate, KList, KUpdate, KMirror}"
    using bootstrapOrSupplement_adds [of w acc fetched tr2] b by auto
  obtain e4 where e4: "saleUpload acc pending tokens tr3 = tr3 @ e4" "kind ` set e4 \<subseteq> {KAddKeys}"
    using saleUpload_adds [of acc pending tokens tr3] by auto
  obtain e5 where e5: "driftSync w acc tokens (tr3 @ e4) = (tr3 @ e4) @ e5" "kind ` set e5 \<subseteq> {KDrift}"
    using driftSync_adds [of w acc tokens "tr3 @ e4"] by auto
  have "snd (reconcile w acc ui tr) = tr @ (e1 @ [ListTokens] @ e3 @ e4 @ e5)"
    using m g b e1 e2 e3 e4 e5 by (simp add: reconcile_def)
  moreover have "kind ` set (e1 @ [ListTokens] @ e3 @ e4 @ e5)
      \<subseteq> {KDelete, KCreate, KList, KUpdate, KMirror, KAddKeys, KDrift}"
    using e1 e3 e4 e5 by auto
  ultimately show ?thesis by blast
qed

lemma attachTokens_quota:
  "ui_quota (attachTokens ui tokens) = ui_quota ui \<and> ui_affQuota (attachTokens ui tokens) = ui_affQuota ui"
  by (simp add: attachTokens_def)

lemma reconcile_quota:
  "ui_quota (fst (reconcile w acc ui tr)) = ui_quota ui
   \<and> ui_affQuota (fst (reconcile w acc ui tr)) = ui_affQuota ui"
  by (simp add: reconcile_def attachTokens_quota split: prod.splits)

lemma calls_append: "calls k (xs @ ys) = calls k xs @ calls k ys"
  by (simp add: calls_def)

lemma calls_none: "k \<notin> kind ` set xs \<Longrightarrow> calls k xs = []"
  by (auto simp add: calls_def filter_empty_conv)

lemma getTokens_failed:
  "list_failed (w_list_tokens w (tr @ [ListTokens])) \<Longrightarrow> getTokens w tr = ([], tr @ [ListTokens])"
  by (cases "w_list_tokens w (tr @ [ListTokens])") (auto simp add: getTokens_def Let_def)

lemma manageTokens_none:
  "configured acc = None \<or> configured acc = Some [] \<Longrightarrow> manageTokens w acc tr = ([], tr)"
  by (auto simp add: manageTokens_def)

lemma saleUpload_none: "saleUpload acc [] tokens tr = tr"
  by (simp add: saleUpload_def)

lemma driftSync_none:
  "configured acc = None \<or> configured acc = Some [] \<Longrightarrow> driftSync w acc tokens tr = tr"
  by (auto simp add: driftSync_def)

lemma bootstrap_trace:
  "snd (bootstrapOrSupplement w acc [] tr) =
     tr @ [CreateToken (requestBody bootstrapConfig)]
        @ (if fst (createToken w bootstrapConfig tr) then [ListTokens] else [])"
  by (simp add: bootstrapOrSupplement_def createToken_def getTokens_def Let_def split: prod.splits)

lemma supplementEntry_matched:
  assumes "find (\<lambda>t. tk_id t = c_id cfg) tokens = Some m"
    and "c_supplement_quota cfg = Some s"
  shows "snd (supplementEntry w cfg (tokens, tr)) =
           tr @ [UpdateToken (m \<lparr> tk_remain_quota := Some (or_num (tk_remain_quota m) 0 + s) \<rparr>)]
              @ (case fst (updateToken w (m \<lparr> tk_remain_quota := Some (or_num (tk_remain_quota m) 0 + s) \<rparr>) tr) of
                   None \<Rightarrow> []
                 | Some confirmed \<Rightarrow>
                     if truthy_str (c_key cfg)
                     then [UpdateKeyInfo (supplementMirror w cfg s confirmed
                             (tr @ [UpdateToken (m \<lparr> tk_remain_quota := Some (or_num (tk_remain_quota m) 0 + s) \<rparr>)]))]
                     else [])"
proof -
  let ?u = "m \<lparr> tk_remain_quota := Some (or_num (tk_remain_quota m) 0 + s) \<rparr>"
  obtain res tr1 where u: "updateToken w ?u tr = (res, tr1)"
    by (cases "updateToken w ?u tr")
  then have "tr1 = tr @ [UpdateToken ?u]"
    using updateToken_trace [of w ?u tr] by simp
  with u assms show ?thesis
    by (simp add: supplementEntry_def Let_def split: option.splits)
qed

text \<open>What the creation pass records and what the sale upload submits.\<close>

lemma isSellName_Some: "isSellName (Some n) = startsWith n sell_prefix"
proof -
  have "startsWith [] sell_prefix = False"
    by (simp add: startsWith_def sell_prefix_def)
  then show ?thesis
    by (cases "n = []") (simp_all add: isSellName_def)
qed

lemma createEntry_pending:
  "fst (createEntry w cfg (pending, tr)) =
     (case c_name cfg of
        None \<Rightarrow> pending
      | Some n \<Rightarrow>
          if fst (createToken w (creationConfig cfg) tr) \<and> startsWith n sell_prefix
          then pending @ [\<lparr> p_name = n, p_remain_quota = c_remain_quota cfg \<rparr>]
          else pending)"
proof -
  obtain ok tr1 where c: "createToken w (creationConfig cfg) tr = (ok, tr1)"
    by (cases "createToken w (creationConfig cfg) tr")
  then show ?thesis
    by (simp add: createEntry_def isSellName_Some split: option.splits)
qed

lemma manageEntry_pending:
  "fst (manageEntry w cfg (pending, tr)) =
     (if truthy_num (c_id cfg) then pending
      else (case c_name cfg of
              None \<Rightarrow> pending
            | Some n \<Rightarrow>
                if fst (createToken w (creationConfig cfg) tr) \<and> startsWith n sell_prefix
                then pending @ [\<lparr> p_name = n, p_remain_quota = c_remain_quota cfg \<rparr>]
                else pending))"
proof (cases "c_id cfg")
  case None
  then show ?thesis
    by (simp add: manageEntry_def truthy_num_def createEntry_pending)
next
  case (Some i)
  then show ?thesis
    by (simp add: manageEntry_def truthy_num_def createEntry_pending)
qed

lemma uploadRecord_mem:
  "r \<in> set (uploadRecord acc p t) \<longleftrightarrow>
     (\<exists>k. tk_key t = Some k \<and> k \<noteq> []
        \<and> r = \<lparr> lr_key = k, lr_key_type = ''anyrouter'', lr_is_sold = False,
                 lr_quota = (case p_remain_quota p of None \<Rightarrow> 0 | Some q \<Rightarrow> of_int q / 500000),
                 lr_source_name = or_str (a_username acc) [] @ ''&'' @ p_name p,
                 lr_account_id = a_id acc \<rparr>)"
proof (cases "tk_key t")
  case None
  then show ?thesis by (simp add: uploadRecord_def)
next
  case (Some k)
  have q: "(case p_remain_quota p of None \<Rightarrow> 0 | Some q \<Rightarrow> if q = 0 then 0 else normalized q)
         = (case p_remain_quota p of None \<Rightarrow> (0::rat) | Some q \<Rightarrow> of_int q / 500000)"
    by (simp add: normalized_def split: option.splits)
  show ?thesis
    using Some by (simp add: uploadRecord_def q)
qed

lemma keysToUpload_mem:
  "r \<in> set (keysToUpload acc pending tokens) \<longleftrightarrow>
     (\<exists>p \<in> set pending. \<exists>t k.
         find (\<lambda>t. tk_name t = Some (p_name p)) tokens = Some t
       \<and> tk_key t = Some k \<and> k \<noteq> []
       \<and> r = \<lparr> lr_key = k, lr_key_type = ''anyrouter'', lr_is_sold = False,
                lr_quota = (case p_remain_quota p of None \<Rightarrow> 0 | Some q \<Rightarrow> of_int q / 500000),
                lr_source_name = or_str (a_username acc) [] @ ''&'' @ p_name p,
                lr_account_id = a_id acc \<rparr>)"
  (is "?L pending \<longleftrightarrow> (\<exists>p \<in> set pending. ?M p)")
proof (induction pending)
  case Nil
  show ?case by simp
next
  case (Cons p ps)
  have here: "r \<in> set (case find (\<lambda>t. tk_name t = Some (p_name p)) tokens of
                          None \<Rightarrow> [] | Some m \<Rightarrow> uploadRecord acc p m) \<longleftrightarrow> ?M p"
    by (cases "find (\<lambda>t. tk_name t = Some (p_name p)) tokens") (simp_all add: uploadRecord_mem)
  have "?L (p # ps) \<longleftrightarrow> ?M p \<or> ?L ps"
    using here by simp
  also have "\<dots> \<longleftrightarrow> ?M p \<or> (\<exists>p \<in> set ps. ?M p)"
    using Cons.IH by simp
  also have "\<dots> \<longleftrightarrow> (\<exists>p \<in> set (p # ps). ?M p)"
    by simp
  finally show ?case .
qed

lemma sale_name_starts: "startsWith sale_name sell_prefix"
  by (simp add: startsWith_def sale_name_def)

lemma sold_a_not: "\<not> startsWith ''sold_a'' sell_prefix"
  by (simp add: startsWith_def sell_prefix_def)

text \<open>The ledger calls of the drift synchronisation.\<close>

lemma driftEntry_eq:
  "driftEntry w tokens c tr =
     tr @ (case find (\<lambda>t. tk_key t = c_key c \<or> tk_id t = c_id c) tokens of
             None \<Rightarrow> []
           | Some current \<Rightarrow>
               if needs_sync tokens c then [UpdateKeyInfo (driftUpdate w c current tr)] else [])"
  by (cases "find (\<lambda>t. tk_key t = c_key c \<or> tk_id t = c_id c) tokens")
     (auto simp add: driftEntry_def needs_sync_def Let_def)

lemma driftEntry_keys:
  "\<exists>ext. driftEntry w tokens c tr = tr @ ext
         \<and> map ledger_key ext = (if needs_sync tokens c then [c_key c] else [])"
proof (cases "find (\<lambda>t. tk_key t = c_key c \<or> tk_id t = c_id c) tokens")
  case None
  then show ?thesis by (simp add: driftEntry_eq needs_sync_def)
next
  case (Some current)
  then show ?thesis by (simp add: driftEntry_eq driftUpdate_def)
qed

lemma fold_driftEntry_keys:
  "\<exists>ext. fold (driftEntry w tokens) cs tr = tr @ ext
         \<and> map ledger_key ext = map c_key (filter (needs_sync tokens) cs)"
proof (induction cs arbitrary: tr)
  case Nil
  show ?case by simp
next
  case (Cons c cs)
  obtain e1 where e1: "driftEntry w tokens c tr = tr @ e1"
      "map ledger_key e1 = (if needs_sync tokens c then [c_key c] else [])"
    using driftEntry_keys [of w tokens c tr] by blast
  obtain e2 where e2: "fold (driftEntry w tokens) cs (tr @ e1) = (tr @ e1) @ e2"
      "map ledger_key e2 = map c_key (filter (needs_sync tokens) cs)"
    using Cons.IH [of "tr @ e1"] by blast
  have "fold (driftEntry w tokens) (c # cs) tr = tr @ (e1 @ e2)"
    using e1(1) e2(1) by simp
  moreover have "map ledger_key (e1 @ e2) = map c_key (filter (needs_sync tokens) (c # cs))"
    using e1(2) e2(2) by simp
  ultimately show ?case by blast
qed








text \<open>The token list after the bootstrap branch and after the supplement pass.\<close>

lemma bootstrap_tokens:
  "bootstrapOrSupplement w acc [] tr =
     (if fst (createToken w bootstrapConfig tr)
      then getTokens w (tr @ [CreateToken (requestBody bootstrapConfig)])
      else ([], tr @ [CreateToken (requestBody bootstrapConfig)]))"
proof -
  obtain created tr' where c: "createToken w bootstrapConfig tr = (created, tr')"
    by (cases "createToken w bootstrapConfig tr")
  then have "tr' = tr @ [CreateToken (requestBody bootstrapConfig)]"
    using createToken_trace [of w bootstrapConfig tr] by simp
  with c show ?thesis by (simp add: bootstrapOrSupplement_def)
qed









subsection \<open>The request body of a creation\<close>

text \<open>
  Claim C4. For every token-creation configuration, \<open>createToken\<close> issues one create
  call whose body carries either \<open>unlimited_quota: true\<close> and no \<open>remain_quota\<close>, or an
  integer \<open>remain_quota\<close> and no \<open>unlimited_quota\<close>, never both; for the configuration
  that leaves everything unspecified the body has \<open>remain_quota\<close> 500000 and the name
  \<open>dw\<close>.
\<close>

theorem createToken_body:
  "snd (createToken w c tr) = tr @ [CreateToken (requestBody c)]
   \<and> ((b_unlimited_quota (requestBody c) = Some True \<and> b_remain_quota (requestBody c) = None)
      \<or> (b_unlimited_quota (requestBody c) = None \<and> (\<exists>n. b_remain_quota (requestBody c) = Some n)))
   \<and> requestBody \<lparr> cc_unlimited_quota = None, cc_remain_quota = None, cc_name = None \<rparr> =
       \<lparr> b_name = ''dw'', b_expired_time = - 1, b_model_limits_enabled = False,
         b_model_limits = [], b_allow_ips = [], b_group = ''default'',
         b_unlimited_quota = None, b_remain_quota = Some 500000 \<rparr>"
  by (simp add: createToken_def requestBody_def Let_def truthy_bool_def or_num_def or_str_def)

theorem createToken_body_witness:
  "snd (createToken (demo_world accepted (demo_user None (Some 1)) (listing []) True)
          bootstrapConfig [])
     = [CreateToken \<lparr> b_name = ''dw'', b_expired_time = - 1, b_model_limits_enabled = False,
                       b_model_limits = [], b_allow_ips = [], b_group = ''default'',
                       b_unlimited_quota = Some True, b_remain_quota = None \<rparr>]"
  using createToken_body
    [of "demo_world accepted (demo_user None (Some 1)) (listing []) True" bootstrapConfig "[]"]
  by (simp add: requestBody_def bootstrapConfig_def truthy_bool_def or_str_def)

subsection \<open>Rejected sign-in\<close>

text \<open>
  Claim C6. If the sign-in call returns an HTTP status other than 200, or status 200
  with none of the success markers (\<open>ret\<close> equal to 1, \<open>code\<close> equal to 0, a true
  \<open>success\<close>), then \<open>signIn\<close> returns the failure result, whose error is the message of
  the remote console (\<open>msg\<close>, else \<open>message\<close>, else the generic text) for status 200 and
  the text \<open>HTTP\<close> followed by the status otherwise, and the sign-in call is the only
  call of the run: no snapshot fetch, no transfer, no token call and no ledger call.
\<close>

theorem signIn_rejected:
  assumes "w_sign_in w [SignIn] = FetchOk st data"
    and "st \<noteq> 200 \<or> \<not> (si_ret data = Some 1 \<or> si_code data = Some 0 \<or> truthy_bool (si_success data))"
  shows "signIn w accountInfo =
           (Failure (if st = 200 then or_str (si_msg data) (or_str (si_message data) unknown_error)
                     else ''HTTP '' @ show_nat st),
            [SignIn])"
  using assms by (auto simp add: signIn_def)

theorem signIn_rejected_witness:
  "signIn (demo_world (FetchOk 200 \<lparr> si_ret = None, si_code = None, si_success = Some False,
                                    si_msg = None, si_message = Some ''already signed in'' \<rparr>)
             (demo_user None (Some 1)) (listing []) True) None
     = (Failure ''already signed in'', [SignIn])
   \<and> signIn (demo_world (FetchOk 502 \<lparr> si_ret = None, si_code = None, si_success = Some True,
                                    si_msg = None, si_message = None \<rparr>)
             (demo_user None (Some 1)) (listing []) True) None
     = (Failure ''HTTP 502'', [SignIn])"
proof -
  let ?b1 = "\<lparr> si_ret = None, si_code = None, si_success = Some False,
               si_msg = None, si_message = Some ''already signed in'' \<rparr>"
  let ?b2 = "\<lparr> si_ret = None, si_code = None, si_success = Some True,
               si_msg = (None :: string option), si_message = (None :: string option) \<rparr>"
  let ?w1 = "demo_world (FetchOk 200 ?b1) (demo_user None (Some 1)) (listing []) True"
  let ?w2 = "demo_world (FetchOk 502 ?b2) (demo_user None (Some 1)) (listing []) True"
  have "w_sign_in ?w1 [SignIn] = FetchOk 200 ?b1" by (simp add: demo_world_def)
  moreover have "(200::nat) \<noteq> 200 \<or> \<not> (si_ret ?b1 = Some 1 \<or> si_code ?b1 = Some 0 \<or> truthy_bool (si_success ?b1))"
    by (simp add: truthy_bool_def)
  ultimately have "signIn ?w1 None = (Failure ''already signed in'', [SignIn])"
    using signIn_rejected [of ?w1 200 ?b1 None] by (simp add: or_str_def)
  moreover have "w_sign_in ?w2 [SignIn] = FetchOk 502 ?b2" by (simp add: demo_world_def)
  then have "signIn ?w2 None = (Failure ''HTTP 502'', [SignIn])"
    using signIn_rejected [of ?w2 502 ?b2 None] by (simp add: show_nat.simps digit_def)
  ultimately show ?thesis by simp
qed

subsection \<open>Banned account\<close>

text \<open>
  Claim C5. If the sign-in succeeds and the user snapshot fetched after it has the
  banned status (2), \<open>signIn\<close> returns success with that snapshot at once: the run
  consists of the sign-in call and the snapshot fetch only, so there is no token
  listing, no creation, deletion or update, and no ledger call.
\<close>

theorem signIn_banned:
  assumes "w_sign_in w [SignIn] = FetchOk 200 data"
    and "si_ret data = Some 1 \<or> si_code data = Some 0 \<or> truthy_bool (si_success data)"
    and "w_user_self w [SignIn, UserSelf] = FetchOk st body"
    and "truthy_bool (us_success body)"
    and "us_data body = Some d"
    and "d_status d = Some 2"
  shows "signIn w accountInfo = (Success (Some (snapshot d)), [SignIn, UserSelf])"
  using assms by (auto simp add: signIn_def fetchUserInfo_def snapshot_def)

theorem signIn_banned_witness:
  "signIn (demo_world accepted (demo_user (Some 70000) (Some 2)) (listing []) True) None
     = (Success (Some (snapshot (demo_user (Some 70000) (Some 2)))), [SignIn, UserSelf])
   \<and> ui_quota (snapshot (demo_user (Some 70000) (Some 2))) = 1000000
   \<and> ui_status (snapshot (demo_user (Some 70000) (Some 2))) = Some 2"
  using signIn_banned [of "demo_world accepted (demo_user (Some 70000) (Some 2)) (listing []) True"
      "\<lparr> si_ret = None, si_code = None, si_success = Some True, si_msg = None, si_message = None \<rparr>"
      200 "\<lparr> us_success = Some True, us_data = Some (demo_user (Some 70000) (Some 2)) \<rparr>"
      "demo_user (Some 70000) (Some 2)" None]
  by (simp add: demo_world_def accepted_def truthy_bool_def demo_user_def snapshot_def)

subsection \<open>Reward transfer\<close>

text \<open>
  Claim C7. In a run that reaches the reward step (the sign-in succeeded and the
  snapshot was fetched and is not banned): if the affiliate reward quota of the fetched
  snapshot is greater than 0, the run contains exactly one reward transfer, for that
  amount, and whatever the console answers to it the returned snapshot has its quota
  increased by the reward and its reward field set to 0; if the reward quota is 0 or
  absent (or negative), the run contains no transfer call and the returned snapshot has
  the fetched quota.
\<close>

theorem reward_transfer:
  assumes "w_sign_in w [SignIn] = FetchOk 200 data"
    and "si_ret data = Some 1 \<or> si_code data = Some 0 \<or> truthy_bool (si_success data)"
    and "w_user_self w [SignIn, UserSelf] = FetchOk st body"
    and "truthy_bool (us_success body)"
    and "us_data body = Some d"
    and "d_status d \<noteq> Some 2"
  shows "\<exists>final tr. signIn w accountInfo = (Success (Some final), tr) \<and>
           (if 0 < ui_affQuota (snapshot d)
            then calls KTransfer tr = [AffTransfer (ui_affQuota (snapshot d))]
                 \<and> ui_quota final = ui_quota (snapshot d) + ui_affQuota (snapshot d)
                 \<and> ui_affQuota final = 0
            else calls KTransfer tr = []
                 \<and> ui_quota final = ui_quota (snapshot d))"
proof -
  let ?ui = "snapshot d"
  let ?tr1 = "[SignIn, UserSelf]"
  have fu: "fetchUserInfo w [SignIn] = (Some ?ui, ?tr1)"
    using assms(3-5) by (simp add: fetchUserInfo_def)
  have nb: "ui_status ?ui \<noteq> Some 2"
    using assms(6) by (simp add: snapshot_def)
  obtain credited tr2 where t: "transferReward w ?ui ?tr1 = (credited, tr2)"
    by (cases "transferReward w ?ui ?tr1")
  obtain final tr3 where r: "reconcile w accountInfo credited tr2 = (final, tr3)"
    by (cases "reconcile w accountInfo credited tr2")
  have s: "signIn w accountInfo = (Success (Some final), tr3)"
    using assms(1,2) fu nb t r by (simp add: signIn_def)
  obtain ext where ext: "tr3 = tr2 @ ext"
      "kind ` set ext \<subseteq> {KDelete, KCreate, KList, KUpdate, KMirror, KAddKeys, KDrift}"
    using reconcile_adds [of w accountInfo credited tr2] r by auto
  then have none: "calls KTransfer ext = []"
    by (intro calls_none) auto
  have tr2: "tr2 = ?tr1 @ (if 0 < ui_affQuota ?ui then [AffTransfer (ui_affQuota ?ui)] else [])"
    using transferReward_trace [of w ?ui ?tr1] t by simp
  have cr: "credited = (if 0 < ui_affQuota ?ui
                        then ?ui \<lparr> ui_quota := ui_quota ?ui + ui_affQuota ?ui, ui_affQuota := 0 \<rparr>
                        else ?ui)"
    using transferReward_info [of w ?ui ?tr1] t by simp
  have fq: "ui_quota final = ui_quota credited \<and> ui_affQuota final = ui_affQuota credited"
    using reconcile_quota [of w accountInfo credited tr2] r by simp
  have "if 0 < ui_affQuota ?ui
        then calls KTransfer tr3 = [AffTransfer (ui_affQuota ?ui)]
             \<and> ui_quota final = ui_quota ?ui + ui_affQuota ?ui \<and> ui_affQuota final = 0
        else calls KTransfer tr3 = [] \<and> ui_quota final = ui_quota ?ui"
    using ext(1) none tr2 cr fq by (simp add: calls_append) (simp add: calls_def)
  with s show ?thesis by blast
qed

theorem reward_transfer_witness:
  "\<exists>final tr. signIn (demo_world accepted (demo_user (Some 70000) (Some 1)) (listing []) False) None
                 = (Success (Some final), tr)
     \<and> calls KTransfer tr = [AffTransfer 70000]
     \<and> ui_quota final = 1070000 \<and> ui_affQuota final = 0"
  using reward_transfer [of "demo_world accepted (demo_user (Some 70000) (Some 1)) (listing []) False"
      "\<lparr> si_ret = None, si_code = None, si_success = Some True, si_msg = None, si_message = None \<rparr>"
      200 "\<lparr> us_success = Some True, us_data = Some (demo_user (Some 70000) (Some 1)) \<rparr>"
      "demo_user (Some 70000) (Some 1)" None]
  by (simp add: demo_world_def accepted_def truthy_bool_def demo_user_def snapshot_def or_num_def)

subsection \<open>Bootstrap\<close>

text \<open>
  Claim C9, as amended. When the desired-token list is empty (or absent) and the remote
  token list fetched after the deletion and creation passes is empty, the reconciler
  issues exactly one bootstrap create call, with \<open>unlimited_quota: true\<close> and no
  \<open>remain_quota\<close>. If that call succeeds, it fetches the token list again, and the
  tokens of that second listing are the ones attached to the snapshot; if it fails,
  there is no second listing, the token list stays empty and the snapshot is returned
  without tokens. These are all the calls of the reconciliation.
\<close>

theorem bootstrap_on_empty:
  assumes "configured accountInfo = None \<or> configured accountInfo = Some []"
    and "fst (getTokens w tr) = []"
  shows "reconcile w accountInfo ui tr =
           (if fst (createToken w bootstrapConfig (tr @ [ListTokens]))
            then (attachTokens ui
                    (fst (getTokens w (tr @ [ListTokens, CreateToken (requestBody bootstrapConfig)]))),
                  tr @ [ListTokens, CreateToken (requestBody bootstrapConfig), ListTokens])
            else (ui, tr @ [ListTokens, CreateToken (requestBody bootstrapConfig)]))
         \<and> fst (bootstrapOrSupplement w accountInfo [] (tr @ [ListTokens])) =
             (if fst (createToken w bootstrapConfig (tr @ [ListTokens]))
              then fst (getTokens w (tr @ [ListTokens, CreateToken (requestBody bootstrapConfig)]))
              else [])
         \<and> b_unlimited_quota (requestBody bootstrapConfig) = Some True
         \<and> b_remain_quota (requestBody bootstrapConfig) = None"
proof -
  let ?tr2 = "tr @ [ListTokens]"
  let ?tr3 = "tr @ [ListTokens, CreateToken (requestBody bootstrapConfig)]"
  have g: "getTokens w tr = ([], ?tr2)"
    using assms(2) getTokens_trace [of w tr] by (cases "getTokens w tr") simp
  have b: "bootstrapOrSupplement w accountInfo [] ?tr2 =
             (if fst (createToken w bootstrapConfig ?tr2) then getTokens w ?tr3 else ([], ?tr3))"
    using bootstrap_tokens [of w accountInfo ?tr2] by simp
  have r: "reconcile w accountInfo ui tr =
             (attachTokens ui (fst (bootstrapOrSupplement w accountInfo [] ?tr2)),
              snd (bootstrapOrSupplement w accountInfo [] ?tr2))"
    using g manageTokens_none [OF assms(1)] driftSync_none [OF assms(1)]
    by (simp add: reconcile_def saleUpload_none split: prod.splits)
  have g3: "snd (getTokens w ?tr3) = ?tr3 @ [ListTokens]"
    by (rule getTokens_trace)
  have one: "reconcile w accountInfo ui tr =
           (if fst (createToken w bootstrapConfig ?tr2)
            then (attachTokens ui (fst (getTokens w ?tr3)), ?tr3 @ [ListTokens])
            else (ui, ?tr3))"
    using r b g3 by (simp add: attachTokens_def)
  have two: "fst (bootstrapOrSupplement w accountInfo [] ?tr2) =
             (if fst (createToken w bootstrapConfig ?tr2) then fst (getTokens w ?tr3) else [])"
    using b by simp
  from one two show ?thesis
    by (simp add: requestBody_def bootstrapConfig_def truthy_bool_def)
qed

theorem bootstrap_on_empty_witness:
  "reconcile fresh_world (Some (demo_account [])) (snapshot (demo_user None (Some 1))) [SignIn, UserSelf]
     = (snapshot (demo_user None (Some 1)) \<lparr> ui_tokens := Some [listedToken token7] \<rparr>,
        [SignIn, UserSelf, ListTokens, CreateToken (requestBody bootstrapConfig), ListTokens])"
proof -
  let ?tr = "[SignIn, UserSelf]"
  have cf: "configured (Some (demo_account [])) = None \<or> configured (Some (demo_account [])) = Some []"
    by (simp add: configured_def demo_account_def)
  have l1: "fst (getTokens fresh_world ?tr) = []"
    by (simp add: getTokens_def fresh_world_def listing_def truthy_bool_def)
  have c: "fst (createToken fresh_world bootstrapConfig (?tr @ [ListTokens])) = True"
    by (simp add: createToken_def fresh_world_def demo_world_def truthy_bool_def)
  have l2: "fst (getTokens fresh_world (?tr @ [ListTokens, CreateToken (requestBody bootstrapConfig)]))
              = [token7]"
    by (simp add: getTokens_def fresh_world_def listing_def truthy_bool_def)
  show ?thesis
    using bootstrap_on_empty [OF cf l1, of "snapshot (demo_user None (Some 1))"] c l2
    by (simp add: attachTokens_def)
qed

theorem bootstrap_refetch_counterexample:
  "fst (getTokens (demo_world accepted (demo_user None (Some 1)) (listing []) False) [SignIn, UserSelf]) = []
   \<and> reconcile (demo_world accepted (demo_user None (Some 1)) (listing []) False)
          (Some (demo_account []))
          (snapshot (demo_user None (Some 1))) [SignIn, UserSelf]
     = (snapshot (demo_user None (Some 1)),
        [SignIn, UserSelf, ListTokens,
         CreateToken \<lparr> b_name = ''dw'', b_expired_time = - 1, b_model_limits_enabled = False,
                       b_model_limits = [], b_allow_ips = [], b_group = ''default'',
                       b_unlimited_quota = Some True, b_remain_quota = None \<rparr>])"
  by (simp add: reconcile_def manageTokens_def configured_def demo_account_def getTokens_def demo_world_def
      listing_def truthy_bool_def bootstrapOrSupplement_def createToken_def requestBody_def
      bootstrapConfig_def or_str_def saleUpload_def driftSync_def attachTokens_def)

subsection \<open>A failed listing looks like an account without tokens\<close>

text \<open>
  Claim C10. For every outcome of the list-tokens operation other than HTTP 200 with
  the success marker (a transport or parse failure, another status, or a 200 body
  without the marker), \<open>getTokens\<close> returns the empty list. So when the listing after
  the deletion and creation passes fails, the run takes the bootstrap branch: the next
  call is a create call with \<open>unlimited_quota: true\<close>, and the supplement pass is
  skipped: no update-token call and no supplement mirror follows, only possibly the
  second listing, the sale upload and drift synchronisations.
\<close>

theorem list_failure_bootstraps:
  assumes "list_failed (w_list_tokens w (tr0 @ [ListTokens]))"
    and "tr1 = snd (manageTokens w accountInfo tr)"
    and "list_failed (w_list_tokens w (tr1 @ [ListTokens]))"
  shows "getTokens w tr0 = ([], tr0 @ [ListTokens])
         \<and> (\<exists>rest. snd (reconcile w accountInfo ui tr) =
                      tr1 @ [ListTokens, CreateToken (requestBody bootstrapConfig)] @ rest
                    \<and> kind ` set rest \<subseteq> {KList, KAddKeys, KDrift})
         \<and> b_unlimited_quota (requestBody bootstrapConfig) = Some True"
proof -
  obtain pending where m: "manageTokens w accountInfo tr = (pending, tr1)"
    using assms(2) by (cases "manageTokens w accountInfo tr") simp
  have g: "getTokens w tr1 = ([], tr1 @ [ListTokens])"
    using assms(3) by (rule getTokens_failed)
  obtain tokens tr3 where b: "bootstrapOrSupplement w accountInfo [] (tr1 @ [ListTokens]) = (tokens, tr3)"
    by (cases "bootstrapOrSupplement w accountInfo [] (tr1 @ [ListTokens])")
  let ?r = "if fst (createToken w bootstrapConfig (tr1 @ [ListTokens])) then [ListTokens] else []"
  have tr3: "tr3 = (tr1 @ [ListTokens]) @ [CreateToken (requestBody bootstrapConfig)] @ ?r"
    using bootstrap_trace [of w accountInfo "tr1 @ [ListTokens]"] b by simp
  obtain e4 where e4: "saleUpload accountInfo pending tokens tr3 = tr3 @ e4" "kind ` set e4 \<subseteq> {KAddKeys}"
    using saleUpload_adds [of accountInfo pending tokens tr3] by auto
  obtain e5 where e5: "driftSync w accountInfo tokens (tr3 @ e4) = (tr3 @ e4) @ e5" "kind ` set e5 \<subseteq> {KDrift}"
    using driftSync_adds [of w accountInfo tokens "tr3 @ e4"] by auto
  have "snd (reconcile w accountInfo ui tr) =
          tr1 @ [ListTokens, CreateToken (requestBody bootstrapConfig)] @ (?r @ e4 @ e5)"
    using m g b tr3 e4 e5 by (simp add: reconcile_def)
  moreover have "kind ` set (?r @ e4 @ e5) \<subseteq> {KList, KAddKeys, KDrift}"
    using e4 e5 by auto
  ultimately have "\<exists>rest. snd (reconcile w accountInfo ui tr) =
                      tr1 @ [ListTokens, CreateToken (requestBody bootstrapConfig)] @ rest
                    \<and> kind ` set rest \<subseteq> {KList, KAddKeys, KDrift}"
    by blast
  moreover have "getTokens w tr0 = ([], tr0 @ [ListTokens])"
    using assms(1) by (rule getTokens_failed)
  ultimately show ?thesis
    by (simp add: requestBody_def bootstrapConfig_def truthy_bool_def)
qed

theorem list_failure_bootstraps_witness:
  "getTokens (demo_world accepted (demo_user None (Some 1)) (FetchError ''Failed to fetch'') True)
      [SignIn, UserSelf] = ([], [SignIn, UserSelf, ListTokens])
   \<and> (\<exists>rest. snd (reconcile
                      (demo_world accepted (demo_user None (Some 1)) (FetchError ''Failed to fetch'') True)
                      (Some (demo_account
                         [blank_config \<lparr> c_id := Some 7, c_key := Some ''sk-7'',
                                        c_supplement_quota := Some 50000 \<rparr>]))
                      (snapshot (demo_user None (Some 1))) [SignIn, UserSelf])
               = [SignIn, UserSelf, ListTokens, CreateToken (requestBody bootstrapConfig)] @ rest
             \<and> kind ` set rest \<subseteq> {KList, KAddKeys, KDrift})"
  using list_failure_bootstraps
    [of "demo_world accepted (demo_user None (Some 1)) (FetchError ''Failed to fetch'') True"
        "[SignIn, UserSelf]" "[SignIn, UserSelf]"
        "Some (demo_account [blank_config \<lparr> c_id := Some 7, c_key := Some ''sk-7'',
                                            c_supplement_quota := Some 50000 \<rparr>])"
        "[SignIn, UserSelf]" "snapshot (demo_user None (Some 1))"]
  by (simp add: demo_world_def manageTokens_def configured_def demo_account_def blank_config_def
      manageEntry_def truthy_bool_def)

subsection \<open>The supplement scenario\<close>

text \<open>
  Claim C1, as amended. For a remote token with identifier 7 and 100000 minor units
  left, and a desired list whose only entry has identifier 7 and supplement 50000, the
  supplement pass issues exactly one update call, carrying the whole remote record with
  \<open>remain_quota\<close> replaced by 150000. If the update succeeds and the desired entry
  carries key material, the pass then issues exactly one \<open>updateKeyInfo\<close> call with
  \<open>incData.quota\<close> equal to 1/10 and \<open>updateData.remain_quota\<close> equal to the remaining
  quota that the update returned, divided by 500000 (3/10 when the console confirms
  150000). If the update fails, or the desired entry has no key material, the pass
  issues no ledger call.
\<close>

theorem supplement_scenario:
  assumes "configured accountInfo = Some [cfg]"
    and "c_id cfg = Some 7"
    and "c_supplement_quota cfg = Some 50000"
    and "find (\<lambda>t. tk_id t = Some 7) tokens = Some t"
    and "tk_remain_quota t = Some 100000"
  shows "snd (supplementPass w accountInfo tokens tr) =
           tr @ [UpdateToken (t \<lparr> tk_remain_quota := Some 150000 \<rparr>)]
              @ (case fst (updateToken w (t \<lparr> tk_remain_quota := Some 150000 \<rparr>) tr) of
                   None \<Rightarrow> []
                 | Some confirmed \<Rightarrow>
                     if truthy_str (c_key cfg)
                     then [UpdateKeyInfo
                             \<lparr> ku_key = c_key cfg,
                               ku_incData = Some \<lparr> inc_quota = 1 / 10 \<rparr>,
                               ku_updateData =
                                 \<lparr> ud_remain_quota = map_option normalized (tk_remain_quota confirmed),
                                   ud_used_quota = normalized (or_num (tk_used_quota confirmed) 0),
                                   ud_quota_update_date =
                                     w_now w (tr @ [UpdateToken (t \<lparr> tk_remain_quota := Some 150000 \<rparr>)]) \<rparr> \<rparr>]
                     else [])
         \<and> map_option normalized (Some 150000) = Some (3 / 10)"
proof -
  have n: "needsSupplement cfg"
    using assms(3) by (simp add: needsSupplement_def)
  have f: "find (\<lambda>t. tk_id t = c_id cfg) tokens = Some t"
    using assms(2,4) by simp
  have "snd (supplementPass w accountInfo tokens tr) = snd (supplementEntry w cfg (tokens, tr))"
    using assms(1) n by (simp add: supplementPass_def)
  then show ?thesis
    using supplementEntry_matched [OF f assms(3), of w tr] assms(5)
    by (simp add: or_num_def supplementMirror_def normalized_def split: option.splits)
qed

theorem supplement_scenario_witness:
  "snd (supplementPass (demo_world accepted (demo_user None (Some 1)) (listing [token7]) True)
          (Some (demo_account [blank_config \<lparr> c_id := Some 7, c_key := Some ''sk-7'',
                                              c_supplement_quota := Some 50000 \<rparr>]))
          [token7] [])
     = [UpdateToken (token7 \<lparr> tk_remain_quota := Some 150000 \<rparr>),
        UpdateKeyInfo \<lparr> ku_key = Some ''sk-7'',
                        ku_incData = Some \<lparr> inc_quota = 1 / 10 \<rparr>,
                        ku_updateData = \<lparr> ud_remain_quota = Some (3 / 10),
                                          ud_used_quota = 1 / 25,
                                          ud_quota_update_date = 1 \<rparr> \<rparr>]"
  using supplement_scenario
    [of "Some (demo_account [blank_config \<lparr> c_id := Some 7, c_key := Some ''sk-7'',
                                             c_supplement_quota := Some 50000 \<rparr>])"
        "blank_config \<lparr> c_id := Some 7, c_key := Some ''sk-7'', c_supplement_quota := Some 50000 \<rparr>"
        "[token7]" token7
        "demo_world accepted (demo_user None (Some 1)) (listing [token7]) True" "[]"]
  by (simp add: configured_def demo_account_def blank_config_def token7_def updateToken_def
      demo_world_def truthy_bool_def truthy_str_def normalized_def or_num_def)

theorem supplement_without_key_counterexample:
  "signIn (demo_world accepted (demo_user None (Some 1)) (listing [token7]) True)
     (Some (demo_account [blank_config \<lparr> c_id := Some 7, c_supplement_quota := Some 50000 \<rparr>]))
   = (Success (Some (snapshot (demo_user None (Some 1))
                  \<lparr> ui_tokens := Some [listedToken (token7 \<lparr> tk_remain_quota := Some 150000 \<rparr>)] \<rparr>)),
      [SignIn, UserSelf, ListTokens, UpdateToken (token7 \<lparr> tk_remain_quota := Some 150000 \<rparr>)])"
  by (simp add: signIn_def demo_world_def accepted_def truthy_bool_def fetchUserInfo_def
      snapshot_def demo_user_def transferReward_def or_num_def reconcile_def manageTokens_def
      configured_def demo_account_def blank_config_def manageEntry_def getTokens_def listing_def
      bootstrapOrSupplement_def supplementPass_def needsSupplement_def supplementEntry_def
      token7_def updateToken_def truthy_str_def saleUpload_def driftSync_def isSellConfig_def
      attachTokens_def listedToken_def Let_def)

subsection \<open>Sale uploads\<close>

text \<open>
  Claim C3, as amended. The sale-name prefix is the string of the source, the
  characters U+51FA U+552E followed by an underscore (\<open>sell_prefix\<close>), not \<open>sold_\<close>.
  A desired entry with no remote identifier is recorded as a pending sale (its name and
  its intended quota) exactly when its creation succeeds and its name starts with that
  prefix; an entry with an identifier is never recorded. After the token list is
  refreshed, the upload issues a single \<open>addKeys\<close> call with all the records, or no
  call when there is none; and a record is submitted exactly when it is, for some
  recorded pending sale, built from the first remote token of that name, that token
  carrying non-empty key material: the key, the type tag \<open>anyrouter\<close>, \<open>is_sold\<close>
  false, the intended quota divided by 500000 (0 when absent), the source label made of
  the account's username, \<open>&\<close> and the token name, and the account id. A match with no
  key material contributes no record.
\<close>

theorem sale_upload:
  "fst (manageEntry w cfg (pending, tr)) =
     (if truthy_num (c_id cfg) then pending
      else (case c_name cfg of
              None \<Rightarrow> pending
            | Some n \<Rightarrow>
                if fst (createToken w (creationConfig cfg) tr) \<and> startsWith n sell_prefix
                then pending @ [\<lparr> p_name = n, p_remain_quota = c_remain_quota cfg \<rparr>]
                else pending))
   \<and> saleUpload (Some acc) recorded tokens tr' =
       (if keysToUpload acc recorded tokens = [] then tr'
        else tr' @ [AddKeys (keysToUpload acc recorded tokens)])
   \<and> (r \<in> set (keysToUpload acc recorded tokens) \<longleftrightarrow>
        (\<exists>p \<in> set recorded. \<exists>t k.
            find (\<lambda>t. tk_name t = Some (p_name p)) tokens = Some t
          \<and> tk_key t = Some k \<and> k \<noteq> []
          \<and> r = \<lparr> lr_key = k, lr_key_type = ''anyrouter'', lr_is_sold = False,
                   lr_quota = (case p_remain_quota p of None \<Rightarrow> 0 | Some q \<Rightarrow> of_int q / 500000),
                   lr_source_name = or_str (a_username acc) [] @ ''&'' @ p_name p,
                   lr_account_id = a_id acc \<rparr>))"
proof (intro conjI)
  show "fst (manageEntry w cfg (pending, tr)) =
     (if truthy_num (c_id cfg) then pending
      else (case c_name cfg of
              None \<Rightarrow> pending
            | Some n \<Rightarrow>
                if fst (createToken w (creationConfig cfg) tr) \<and> startsWith n sell_prefix
                then pending @ [\<lparr> p_name = n, p_remain_quota = c_remain_quota cfg \<rparr>]
                else pending))"
    by (rule manageEntry_pending)
  show "saleUpload (Some acc) recorded tokens tr' =
       (if keysToUpload acc recorded tokens = [] then tr'
        else tr' @ [AddKeys (keysToUpload acc recorded tokens)])"
    by (cases recorded) (simp_all add: saleUpload_def Let_def)
  show "r \<in> set (keysToUpload acc recorded tokens) \<longleftrightarrow>
        (\<exists>p \<in> set recorded. \<exists>t k.
            find (\<lambda>t. tk_name t = Some (p_name p)) tokens = Some t
          \<and> tk_key t = Some k \<and> k \<noteq> []
          \<and> r = \<lparr> lr_key = k, lr_key_type = ''anyrouter'', lr_is_sold = False,
                   lr_quota = (case p_remain_quota p of None \<Rightarrow> 0 | Some q \<Rightarrow> of_int q / 500000),
                   lr_source_name = or_str (a_username acc) [] @ ''&'' @ p_name p,
                   lr_account_id = a_id acc \<rparr>)"
    by (rule keysToUpload_mem)
qed

theorem sale_upload_witness:
  "fst (manageEntry (demo_world accepted (demo_user None (Some 1)) (listing []) True)
          (blank_config \<lparr> c_name := Some sale_name, c_remain_quota := Some 250000 \<rparr>) ([], []))
     = [\<lparr> p_name = sale_name, p_remain_quota = Some 250000 \<rparr>]
   \<and> saleUpload (Some (demo_account []))
        [\<lparr> p_name = sale_name, p_remain_quota = Some 250000 \<rparr>] [sale_token sale_name] []
     = [AddKeys [\<lparr> lr_key = ''sk-new'', lr_key_type = ''anyrouter'', lr_is_sold = False,
                    lr_quota = 1 / 2, lr_source_name = ''alice&'' @ sale_name,
                    lr_account_id = Some ''a1'' \<rparr>]]"
proof -
  let ?w = "demo_world accepted (demo_user None (Some 1)) (listing []) True"
  let ?cfg = "blank_config \<lparr> c_name := Some sale_name, c_remain_quota := Some 250000 \<rparr>"
  let ?p = "\<lparr> p_name = sale_name, p_remain_quota = Some 250000 \<rparr>"
  let ?r = "\<lparr> lr_key = ''sk-new'', lr_key_type = ''anyrouter'', lr_is_sold = False,
             lr_quota = 1 / 2, lr_source_name = ''alice&'' @ sale_name,
             lr_account_id = Some ''a1'' \<rparr>"
  note inst = sale_upload [of ?w ?cfg "[]" "[]" "demo_account []" "[?p]" "[sale_token sale_name]" "[]" ?r]
  have created: "fst (createToken ?w (creationConfig ?cfg) []) = True"
    by (simp add: createToken_def demo_world_def truthy_bool_def)
  have noid: "\<not> truthy_num (c_id ?cfg)"
    by (simp add: blank_config_def truthy_num_def)
  have nm: "c_name ?cfg = Some sale_name" "c_remain_quota ?cfg = Some 250000"
    by (simp_all add: blank_config_def)
  have a: "fst (manageEntry ?w ?cfg ([], [])) = [?p]"
    using inst created noid nm sale_name_starts by simp
  have keys: "keysToUpload (demo_account []) [?p] [sale_token sale_name] = [?r]"
    by (simp add: uploadRecord_def sale_token_def normalized_def or_str_def demo_account_def)
  have b: "saleUpload (Some (demo_account [])) [?p] [sale_token sale_name] [] = [AddKeys [?r]]"
    using inst keys by simp
  from a b show ?thesis by simp
qed

theorem sold_prefix_counterexample:
  "signIn (demo_world accepted (demo_user None (Some 1)) (listing [sale_token ''sold_a'']) True)
     (Some (demo_account [blank_config \<lparr> c_name := Some ''sold_a'', c_remain_quota := Some 250000 \<rparr>]))
   = (Success (Some (snapshot (demo_user None (Some 1))
                  \<lparr> ui_tokens := Some [listedToken (sale_token ''sold_a'')] \<rparr>)),
      [SignIn, UserSelf,
       CreateToken \<lparr> b_name = ''sold_a'', b_expired_time = - 1, b_model_limits_enabled = False,
                     b_model_limits = [], b_allow_ips = [], b_group = ''default'',
                     b_unlimited_quota = None, b_remain_quota = Some 250000 \<rparr>,
       ListTokens])"
proof -
  let ?w = "demo_world accepted (demo_user None (Some 1)) (listing [sale_token ''sold_a'']) True"
  let ?cfg = "blank_config \<lparr> c_name := Some ''sold_a'', c_remain_quota := Some 250000 \<rparr>"
  let ?acc = "Some (demo_account [?cfg])"
  let ?ui = "snapshot (demo_user None (Some 1))"
  let ?body = "\<lparr> b_name = ''sold_a'', b_expired_time = - 1, b_model_limits_enabled = False,
                 b_model_limits = [], b_allow_ips = [], b_group = ''default'',
                 b_unlimited_quota = None, b_remain_quota = Some 250000 \<rparr>"
  have fields: "c_id ?cfg = None" "c_name ?cfg = Some ''sold_a''"
    by (simp_all add: blank_config_def)
  have cf: "configured ?acc = Some [?cfg]"
    by (simp add: configured_def demo_account_def)
  have rb: "requestBody (creationConfig ?cfg) = ?body"
    by (simp add: requestBody_def creationConfig_def blank_config_def truthy_bool_def
        or_str_def or_num_def)
  have ct: "createToken ?w (creationConfig ?cfg) [SignIn, UserSelf]
              = (True, [SignIn, UserSelf, CreateToken ?body])"
    by (simp add: createToken_def rb Let_def demo_world_def truthy_bool_def)
  have ce: "createEntry ?w ?cfg ([], [SignIn, UserSelf]) = ([], [SignIn, UserSelf, CreateToken ?body])"
    by (simp add: createEntry_def ct isSellName_Some sold_a_not fields)
  have mt: "manageTokens ?w ?acc [SignIn, UserSelf] = ([], [SignIn, UserSelf, CreateToken ?body])"
    by (simp add: manageTokens_def cf manageEntry_def fields ce)
  have gt: "getTokens ?w [SignIn, UserSelf, CreateToken ?body]
              = ([sale_token ''sold_a''], [SignIn, UserSelf, CreateToken ?body, ListTokens])"
    by (simp add: getTokens_def Let_def demo_world_def listing_def truthy_bool_def)
  have ns: "\<not> needsSupplement ?cfg"
    by (simp add: needsSupplement_def blank_config_def)
  have bs: "bootstrapOrSupplement ?w ?acc [sale_token ''sold_a''] [SignIn, UserSelf, CreateToken ?body, ListTokens]
              = ([sale_token ''sold_a''], [SignIn, UserSelf, CreateToken ?body, ListTokens])"
    by (simp add: bootstrapOrSupplement_def supplementPass_def cf ns)
  have sc: "\<not> isSellConfig ?cfg"
    by (simp add: isSellConfig_def truthy_str_def blank_config_def)
  have ds: "driftSync ?w ?acc [sale_token ''sold_a''] [SignIn, UserSelf, CreateToken ?body, ListTokens]
              = [SignIn, UserSelf, CreateToken ?body, ListTokens]"
    by (simp add: driftSync_def cf sc)
  have rc: "reconcile ?w ?acc ?ui [SignIn, UserSelf]
              = (?ui \<lparr> ui_tokens := Some [listedToken (sale_token ''sold_a'')] \<rparr>,
                 [SignIn, UserSelf, CreateToken ?body, ListTokens])"
    by (simp add: reconcile_def mt gt bs saleUpload_def ds attachTokens_def)
  have fu: "fetchUserInfo ?w [SignIn] = (Some ?ui, [SignIn, UserSelf])"
    by (simp add: fetchUserInfo_def Let_def demo_world_def truthy_bool_def)
  have st: "ui_status ?ui = Some 1" "ui_affQuota ?ui = 0"
    by (simp_all add: snapshot_def demo_user_def or_num_def)
  have tr: "transferReward ?w ?ui [SignIn, UserSelf] = (?ui, [SignIn, UserSelf])"
    by (simp add: transferReward_def st)
  have si: "w_sign_in ?w [SignIn] =
      FetchOk 200 \<lparr> si_ret = None, si_code = None, si_success = Some True,
                     si_msg = None, si_message = None \<rparr>"
    by (simp add: demo_world_def accepted_def)
  show ?thesis
    by (simp add: signIn_def Let_def si truthy_bool_def fu st tr rc)
qed

subsection \<open>Drift synchronisation\<close>

text \<open>
  Claim C2. For a desired entry that is tagged as a sale token (by the name convention
  or by \<open>is_sold\<close> being true) and has key material, and whose matched current remote
  token is \<open>current\<close> (the first one with the same key or the same identifier), the
  drift synchronisation issues an \<open>updateKeyInfo\<close> call for the entry, an absolute
  overwrite of the remaining and used quota with a time stamp, if and only if the used
  quota recorded in the entry differs from the one of \<open>current\<close> (an absent one counting
  as 0) or the entry's \<open>is_sold\<close> flag is true; otherwise the entry produces no ledger
  call. Over the whole pass, the ledger calls are, in order, one for each such entry
  that needs a synchronisation, and nothing else.
\<close>

theorem drift_sync:
  assumes "isSellConfig cfg"
    and "find (\<lambda>t. tk_key t = c_key cfg \<or> tk_id t = c_id cfg) tokens = Some current"
    and "configured accountInfo = Some cfgs"
  shows "driftEntry w tokens cfg tr =
           (if or_num (c_used_quota cfg) 0 \<noteq> or_num (tk_used_quota current) 0
               \<or> c_is_sold cfg = Some True
            then tr @ [UpdateKeyInfo
                         \<lparr> ku_key = c_key cfg, ku_incData = None,
                           ku_updateData =
                             \<lparr> ud_remain_quota = Some (normalized (or_num (tk_remain_quota current) 0)),
                               ud_used_quota = normalized (or_num (tk_used_quota current) 0),
                               ud_quota_update_date = w_now w tr \<rparr> \<rparr>]
            else tr)
         \<and> (\<exists>ext. driftSync w accountInfo tokens tr = tr @ ext
                \<and> kind ` set ext \<subseteq> {KDrift}
                \<and> map ledger_key ext =
                    map c_key (filter (\<lambda>c. isSellConfig c \<and> needs_sync tokens c) cfgs))"
proof -
  have one: "driftEntry w tokens cfg tr =
           (if or_num (c_used_quota cfg) 0 \<noteq> or_num (tk_used_quota current) 0
               \<or> c_is_sold cfg = Some True
            then tr @ [UpdateKeyInfo
                         \<lparr> ku_key = c_key cfg, ku_incData = None,
                           ku_updateData =
                             \<lparr> ud_remain_quota = Some (normalized (or_num (tk_remain_quota current) 0)),
                               ud_used_quota = normalized (or_num (tk_used_quota current) 0),
                               ud_quota_update_date = w_now w tr \<rparr> \<rparr>]
            else tr)"
    using assms(2) by (simp add: driftEntry_eq needs_sync_def driftUpdate_def)
  obtain ext where ext: "fold (driftEntry w tokens) (filter isSellConfig cfgs) tr = tr @ ext"
      "map ledger_key ext = map c_key (filter (needs_sync tokens) (filter isSellConfig cfgs))"
    using fold_driftEntry_keys [of w tokens "filter isSellConfig cfgs" tr] by blast
  have ds: "driftSync w accountInfo tokens tr = tr @ ext"
    using assms(3) ext(1) by (simp add: driftSync_def)
  obtain ext' where ext': "driftSync w accountInfo tokens tr = tr @ ext'" "kind ` set ext' \<subseteq> {KDrift}"
    using driftSync_adds [of w accountInfo tokens tr] by blast
  have same: "ext' = ext" using ds ext'(1) by simp
  have ff: "filter (needs_sync tokens) (filter isSellConfig cfgs)
          = filter (\<lambda>c. isSellConfig c \<and> needs_sync tokens c) cfgs"
    by (simp add: conj_commute)
  have "\<exists>ext. driftSync w accountInfo tokens tr = tr @ ext
                \<and> kind ` set ext \<subseteq> {KDrift}
                \<and> map ledger_key ext =
                    map c_key (filter (\<lambda>c. isSellConfig c \<and> needs_sync tokens c) cfgs)"
    using ds ext(2) ext'(2) same ff by auto
  with one show ?thesis by blast
qed

theorem drift_sync_witness:
  "driftEntry (demo_world accepted (demo_user None (Some 1)) (listing [token7]) True)
      [token7] (sale_entry 5000) [SignIn, UserSelf, ListTokens]
     = [SignIn, UserSelf, ListTokens,
        UpdateKeyInfo \<lparr> ku_key = Some ''sk-7'', ku_incData = None,
                        ku_updateData = \<lparr> ud_remain_quota = Some (1 / 5), ud_used_quota = 1 / 25,
                                          ud_quota_update_date = 3 \<rparr> \<rparr>]
   \<and> driftEntry (demo_world accepted (demo_user None (Some 1)) (listing [token7]) True)
      [token7] (sale_entry 20000) [SignIn, UserSelf, ListTokens]
     = [SignIn, UserSelf, ListTokens]"
proof -
  let ?w = "demo_world accepted (demo_user None (Some 1)) (listing [token7]) True"
  let ?acc = "Some (demo_account [sale_entry 5000, sale_entry 20000])"
  let ?tr = "[SignIn, UserSelf, ListTokens]"
  have sell: "isSellConfig (sale_entry u)" for u
    by (simp add: isSellConfig_def sale_entry_def blank_config_def isSellName_Some
        sale_name_starts truthy_str_def)
  have found: "find (\<lambda>t. tk_key t = c_key (sale_entry u) \<or> tk_id t = c_id (sale_entry u)) [token7]
                 = Some token7" for u
    by (simp add: sale_entry_def blank_config_def token7_def)
  have cf: "configured ?acc = Some [sale_entry 5000, sale_entry 20000]"
    by (simp add: configured_def demo_account_def)
  have vals: "c_used_quota (sale_entry u) = Some u" "c_is_sold (sale_entry u) = None"
      "c_key (sale_entry u) = Some ''sk-7''" for u
    by (simp_all add: sale_entry_def blank_config_def)
  have tok: "tk_used_quota token7 = Some 20000" "tk_remain_quota token7 = Some 100000"
    by (simp_all add: token7_def)
  have now: "w_now ?w ?tr = 3"
    by (simp add: demo_world_def)
  have a: "driftEntry ?w [token7] (sale_entry 5000) ?tr
     = ?tr @ [UpdateKeyInfo \<lparr> ku_key = Some ''sk-7'', ku_incData = None,
                        ku_updateData = \<lparr> ud_remain_quota = Some (1 / 5), ud_used_quota = 1 / 25,
                                          ud_quota_update_date = 3 \<rparr> \<rparr>]"
    using drift_sync [OF sell [of 5000] found [of 5000] cf, where w = ?w and tr = ?tr]
    by (simp add: vals tok now or_num_def normalized_def)
  have b: "driftEntry ?w [token7] (sale_entry 20000) ?tr = ?tr"
    using drift_sync [OF sell [of 20000] found [of 20000] cf, where w = ?w and tr = ?tr]
    by (simp add: vals tok or_num_def)
  from a b show ?thesis by simp
qed

subsection \<open>Each supplement is applied once per entry\<close>




end
